theory Spec2Isabelle
  imports Main
begin

section \<open>Strings and paths\<close>

text \<open>
  Python strings are modelled as \<^typ>\<open>string\<close> (UTF-8 bytes). Every operation the driver
  applies to them looks only for ASCII characters (\<open>/\<close>, \<open>.\<close>, the suffix \<open>.txt\<close>, the jar
  name), so the byte view and the code point view agree on them.
\<close>

definition startswith :: "string \<Rightarrow> string \<Rightarrow> bool" where
  "startswith s pre = (take (length pre) s = pre)"

definition endswith :: "string \<Rightarrow> string \<Rightarrow> bool" where
  "endswith s suf = (length suf \<le> length s \<and> drop (length s - length suf) s = suf)"

text \<open>\<open>needle in s\<close> on strings: \<open>needle\<close> occurs in \<open>s\<close> as a contiguous block.\<close>

fun contains :: "string \<Rightarrow> string \<Rightarrow> bool" where
  "contains [] needle = (needle = [])"
| "contains (c # cs) needle = (startswith (c # cs) needle \<or> contains cs needle)"

text \<open>\<open>sep.join(parts)\<close>.\<close>

fun str_join :: "string \<Rightarrow> string list \<Rightarrow> string" where
  "str_join sep [] = []"
| "str_join sep [p] = p"
| "str_join sep (p # q # ps) = p @ sep @ str_join sep (q # ps)"

text \<open>\<open>str(n)\<close> for a non-negative integer: its decimal digits.\<close>

definition digit_char :: "nat \<Rightarrow> char" where
  "digit_char d = char_of (48 + d)"

fun str_nat :: "nat \<Rightarrow> string" where
  "str_nat n = (if n < 10 then [digit_char n] else str_nat (n div 10) @ [digit_char (n mod 10)])"

declare str_nat.simps [simp del]

text \<open>
  \<open>s.rfind(c)\<close> for a single character: the highest index holding \<open>c\<close>, or \<open>-1\<close>.
  The scan keeps the current index and the best index seen so far.
\<close>

fun rfind_from :: "string \<Rightarrow> char \<Rightarrow> int \<Rightarrow> int \<Rightarrow> int" where
  "rfind_from [] c i best = best"
| "rfind_from (x # xs) c i best = rfind_from xs c (i + 1) (if x = c then i else best)"

definition rfind :: "string \<Rightarrow> char \<Rightarrow> int" where
  "rfind s c = rfind_from s c 0 (- 1)"

text \<open>
  \<open>os.path.join\<close> of the POSIX flavour (the driver's library paths are macOS paths): a
  component that starts with the separator replaces what was built so far; otherwise it is
  appended, with a separator unless the path so far is empty or already ends with one.
\<close>

definition join2 :: "string \<Rightarrow> string \<Rightarrow> string" where
  "join2 path b =
     (if startswith b ''/'' then b
      else if path = [] \<or> endswith path ''/'' then path @ b
      else path @ ''/'' @ b)"

definition os_path_join :: "string \<Rightarrow> string list \<Rightarrow> string" where
  "os_path_join a ps = foldl join2 a ps"

text \<open>
  \<open>os.path.splitext\<close> (POSIX: separator \<open>/\<close>, no alternative separator, extension
  separator \<open>.\<close>). The extension starts at the last dot, provided that dot comes after
  the last separator and some character between the two is not a dot: leading dots of the
  base name do not start an extension.
\<close>

function skip_leading_dots :: "string \<Rightarrow> nat \<Rightarrow> nat \<Rightarrow> bool" where
  "skip_leading_dots p filenameIndex dotIndex =
     (if filenameIndex < dotIndex
      then (if p ! filenameIndex \<noteq> CHR ''.'' then True
            else skip_leading_dots p (filenameIndex + 1) dotIndex)
      else False)"
  by pat_completeness auto
termination
  by (relation "measure (\<lambda>(p, filenameIndex, dotIndex). dotIndex - filenameIndex)") auto

declare skip_leading_dots.simps [simp del]

definition splitext :: "string \<Rightarrow> string \<times> string" where
  "splitext p =
     (let sepIndex = rfind p CHR ''/'';
          dotIndex = rfind p CHR ''.''
      in if dotIndex > sepIndex \<and> skip_leading_dots p (nat (sepIndex + 1)) (nat dotIndex)
         then (take (nat dotIndex) p, drop (nat dotIndex) p)
         else (p, []))"

section \<open>Configuration\<close>

text \<open>
  The feature toggles are module constants of the driver, meant to be edited by hand
  (\<open>Set to False to disable timeout, True to enable timeout\<close>). They are the parameters
  of the model; \<open>shipped_config\<close> is the setting the source ships with.
\<close>

record config =
  USE_CPLEX :: bool
  USE_OR_TOOLS :: bool
  USE_TIMEOUT :: bool

definition shipped_config :: config where
  "shipped_config = \<lparr>USE_CPLEX = True, USE_OR_TOOLS = True, USE_TIMEOUT = False\<rparr>"

definition MAX_RUNNING_TIME :: string where
  "MAX_RUNNING_TIME = ''605s''"

section \<open>The host: processes, directories, child processes\<close>

text \<open>
  One entry of \<open>psutil.process_iter(['pid', 'cmdline'])\<close>: the process id, the command
  line (\<open>None\<close> when the host does not disclose it), and what \<open>proc.kill()\<close> does:
  \<open>kill_raises = Some m\<close> when it raises a psutil error whose text is \<open>m\<close>.
\<close>

record process =
  pid :: nat
  cmdline :: "string list option"
  kill_raises :: "string option"

text \<open>The part of the host's state the driver changes itself: the directories that exist.\<close>

record world =
  dirs :: "string list"

text \<open>What \<open>subprocess.run\<close> returns: the exit status and the captured error stream.\<close>

record completed =
  returncode :: int
  stderr :: string

text \<open>
  Everything else of the host is a parameter: the value of \<open>HOME\<close>, \<open>platform.system()\<close>,
  the process table, \<open>os.path.abspath\<close> (it depends on the working directory), whether
  the host refuses to create a directory, the listing of a directory, and the outcome of a
  child process (\<open>Inl m\<close>: the process could not be started, an \<open>OSError\<close> with text
  \<open>m\<close>), which may leave the host in any other state.
\<close>

record env =
  HOME :: "string option"
  platform_system :: string
  process_iter :: "process list"
  abspath :: "string \<Rightarrow> string"
  makedirs_refused :: "string \<Rightarrow> world \<Rightarrow> string option"
  os_listdir :: "string \<Rightarrow> world \<Rightarrow> string + string list"
  subprocess_run :: "string list \<Rightarrow> string \<Rightarrow> world \<Rightarrow> (string + completed) \<times> world"

text \<open>
  \<open>os.path.expandvars\<close> on a path of the shape \<open>$HOME/...\<close>: the reference is replaced by
  the variable's value, and left as it is when the variable is not set.
\<close>

definition expandvars_HOME :: "env \<Rightarrow> string \<Rightarrow> string" where
  "expandvars_HOME e rest = (case HOME e of None \<Rightarrow> ''$HOME'' @ rest | Some h \<Rightarrow> h @ rest)"

definition CPLEX_PATH :: "env \<Rightarrow> string" where
  "CPLEX_PATH e = expandvars_HOME e ''/CPLEX_Studio2211/opl/bin/arm64_osx/''"

definition OR_TOOLS_PATH :: "env \<Rightarrow> string" where
  "OR_TOOLS_PATH e = expandvars_HOME e ''/Documents/or-tools/build/lib/''"

section \<open>Effects and failures\<close>

text \<open>
  How a child process is given its streams: \<open>capture_output=True\<close> (the build) or
  \<open>stderr=subprocess.PIPE\<close> (the solver). Both hand the error stream back to the
  driver; \<open>subprocess.run\<close> returns only once the child has exited.
\<close>

datatype stdio = CaptureOutput | StderrPipe

text \<open>
  The observable actions of the driver. \<open>Makedirs p\<close> is \<open>os.makedirs(p, exist_ok=True)\<close>;
  \<open>Spawn cmd cwd io\<close> is \<open>subprocess.run(cmd, cwd=cwd, text=True, ...)\<close>.
\<close>

datatype event =
    Print string
  | Kill nat
  | Makedirs string
  | Listdir string
  | Spawn "string list" string stdio

text \<open>A run is the sequence of its actions, each with the state of the host it was taken in.\<close>

type_synonym trace = "(world \<times> event) list"

datatype exn =
    TimeoutError string
  | RuntimeError string
  | OSError string
  | PsutilError string
  | SystemExit int

text \<open>\<open>except Exception\<close> catches every failure but \<open>SystemExit\<close>.\<close>

fun is_Exception :: "exn \<Rightarrow> bool" where
  "is_Exception (SystemExit _) = False"
| "is_Exception _ = True"

fun exn_str :: "exn \<Rightarrow> string" where
  "exn_str (TimeoutError m) = m"
| "exn_str (RuntimeError m) = m"
| "exn_str (OSError m) = m"
| "exn_str (PsutilError m) = m"
| "exn_str (SystemExit n) = (if n < 0 then ''-'' @ str_nat (nat (- n)) else str_nat (nat n))"

definition proc_kill :: "process \<Rightarrow> exn + unit" where
  "proc_kill proc = (case kill_raises proc of None \<Rightarrow> Inr () | Some m \<Rightarrow> Inl (PsutilError m))"

text \<open>
  \<open>os.makedirs(name, exist_ok=True)\<close>, after the library's documentation: it creates the
  leaf directory and every intermediate one that is missing; a directory that exists
  already is left alone and is no error. The directories on the way to \<open>name\<close> are the
  prefixes of \<open>name\<close> that end where a component ends.
\<close>

definition path_levels :: "string \<Rightarrow> string list" where
  "path_levels name =
     [take i name. i \<leftarrow> [1..<length name], name ! i = CHR ''/'' \<and> name ! (i - 1) \<noteq> CHR ''/''] @ [name]"

definition os_makedirs :: "env \<Rightarrow> string \<Rightarrow> world \<Rightarrow> exn + world" where
  "os_makedirs e name w =
     (if name \<in> set (dirs w) then Inr w
      else case makedirs_refused e name w of
             Some m \<Rightarrow> Inl (OSError m)
           | None \<Rightarrow> Inr (w\<lparr>dirs := dirs w @ [d \<leftarrow> path_levels name. d \<notin> set (dirs w)]\<rparr>))"

section \<open>The driver\<close>

subsection \<open>\<open>kill_existing_java_instances\<close>\<close>

text \<open>
  The loop over the process table. \<open>if cmdline and ... in ' '.join(cmdline)\<close>: a command
  line that is \<open>None\<close> or empty is skipped. The \<open>try\<close> around \<open>proc.kill()\<close> catches
  every \<open>Exception\<close>, prints it and goes on; anything else would leave the loop.
\<close>

fun kill_scan :: "world \<Rightarrow> process list \<Rightarrow> trace \<times> (exn + unit)" where
  "kill_scan w [] = ([], Inr ())"
| "kill_scan w (proc # procs) =
     (if (case cmdline proc of
            None \<Rightarrow> False
          | Some cl \<Rightarrow> cl \<noteq> [] \<and> contains (str_join '' '' cl) ''ChallengeSBPO2025-1.0.jar'')
      then
        (let t = [(w, Print (''Killing stale Java process: PID '' @ str_nat (pid proc))),
                  (w, Kill (pid proc))]
         in case proc_kill proc of
              Inr _ \<Rightarrow>
                (case kill_scan w procs of (t', r) \<Rightarrow> (t @ t', r))
            | Inl e \<Rightarrow>
                if is_Exception e
                then (case kill_scan w procs of
                        (t', r) \<Rightarrow>
                          (t @ [(w, Print (''Failed to kill process '' @ str_nat (pid proc)
                                            @ '': '' @ exn_str e))] @ t', r))
                else (t, Inl e))
      else kill_scan w procs)"

definition kill_existing_java_instances :: "env \<Rightarrow> world \<Rightarrow> trace \<times> (exn + unit)" where
  "kill_existing_java_instances e w = kill_scan w (process_iter e)"

subsection \<open>\<open>compile_code\<close>\<close>

definition compile_code :: "env \<Rightarrow> string \<Rightarrow> world \<Rightarrow> trace \<times> (exn + bool) \<times> world" where
  "compile_code e source_folder w =
     (let t = [(w, Print (''Compiling code in '' @ source_folder @ ''...'')),
               (w, Spawn [''mvn'', ''clean'', ''package''] source_folder CaptureOutput)]
      in case subprocess_run e [''mvn'', ''clean'', ''package''] source_folder w of
           (Inl m, w') \<Rightarrow> (t, Inl (OSError m), w')
         | (Inr result, w') \<Rightarrow>
             if returncode result \<noteq> 0
             then (t @ [(w', Print ''Maven compilation failed:''),
                        (w', Print (stderr result))], Inr False, w')
             else (t @ [(w', Print ''Maven compilation successful.'')], Inr True, w'))"

subsection \<open>\<open>run_benchmark\<close>\<close>

text \<open>The combined library path; \<open>None\<close> is Python's \<open>None\<close>.\<close>

definition libraries :: "config \<Rightarrow> env \<Rightarrow> string option" where
  "libraries cfg e =
     (if USE_CPLEX cfg \<and> USE_OR_TOOLS cfg then Some (OR_TOOLS_PATH e @ '':'' @ CPLEX_PATH e)
      else if USE_CPLEX cfg then Some (CPLEX_PATH e)
      else if USE_OR_TOOLS cfg then Some (OR_TOOLS_PATH e)
      else None)"

definition timeout_prefix :: "config \<Rightarrow> env \<Rightarrow> string list" where
  "timeout_prefix cfg e =
     (if USE_TIMEOUT cfg
      then (let timeout_cmd = (if platform_system e = ''Darwin'' then ''gtimeout'' else ''timeout'')
            in [timeout_cmd, MAX_RUNNING_TIME])
      else [])"

definition jar_path :: "string \<Rightarrow> string" where
  "jar_path source_folder = os_path_join source_folder [''target'', ''ChallengeSBPO2025-1.0.jar'']"

definition input_file :: "string \<Rightarrow> string \<Rightarrow> string" where
  "input_file input_folder filename = os_path_join input_folder [filename]"

definition output_file :: "string \<Rightarrow> string \<Rightarrow> string" where
  "output_file output_folder filename =
     os_path_join output_folder [fst (splitext filename) @ ''.txt'']"

text \<open>
  The Java invocation. \<open>if libraries:\<close> is Python's truth test: \<open>None\<close> and the empty
  string both leave the flag out.
\<close>

definition java_cmd :: "string option \<Rightarrow> string \<Rightarrow> string \<Rightarrow> string \<Rightarrow> string list" where
  "java_cmd libs jar inp out =
     ([''java'']
      @ (case libs of
           None \<Rightarrow> []
         | Some l \<Rightarrow> if l \<noteq> [] then [''-Djava.library.path='' @ l] else []))
     @ [''--enable-native-access=ALL-UNNAMED'', ''-Xmx16g'', ''-jar'', jar, inp, out]"

definition cmd_for :: "config \<Rightarrow> env \<Rightarrow> string \<Rightarrow> string \<Rightarrow> string \<Rightarrow> string \<Rightarrow> string list" where
  "cmd_for cfg e source_folder input_folder output_folder filename =
     timeout_prefix cfg e
     @ java_cmd (libraries cfg e) (jar_path source_folder)
         (input_file input_folder filename) (output_file output_folder filename)"

text \<open>
  The loop over the directory listing: an entry without the suffix is skipped
  (\<open>continue\<close>); the first child that cannot be started, times out or fails ends the
  loop with the exception.
\<close>

fun run_files ::
  "config \<Rightarrow> env \<Rightarrow> string \<Rightarrow> string \<Rightarrow> string \<Rightarrow> string list \<Rightarrow> world
     \<Rightarrow> trace \<times> (exn + unit) \<times> world" where
  "run_files cfg e source_folder input_folder output_folder [] w = ([], Inr (), w)"
| "run_files cfg e source_folder input_folder output_folder (filename # rest) w =
     (if \<not> endswith filename ''.txt''
      then run_files cfg e source_folder input_folder output_folder rest w
      else
        (let cmd = cmd_for cfg e source_folder input_folder output_folder filename;
             t = [(w, Print (''Running '' @ filename)), (w, Spawn cmd source_folder StderrPipe)]
         in case subprocess_run e cmd source_folder w of
              (Inl m, w') \<Rightarrow> (t, Inl (OSError m), w')
            | (Inr result, w') \<Rightarrow>
                if USE_TIMEOUT cfg \<and> returncode result = 124
                then (let error_msg = ''Execution timed out after '' @ MAX_RUNNING_TIME
                                      @ '' for '' @ input_file input_folder filename
                      in (t @ [(w', Print error_msg)], Inl (TimeoutError error_msg), w'))
                else if returncode result \<noteq> 0
                then (t @ [(w', Print (''Execution failed for ''
                                       @ input_file input_folder filename @ '':'')),
                           (w', Print (stderr result))],
                      Inl (RuntimeError (''Execution failed for ''
                                         @ input_file input_folder filename @ '': ''
                                         @ stderr result)),
                      w')
                else (case run_files cfg e source_folder input_folder output_folder rest w' of
                        (t', r, w'') \<Rightarrow> (t @ t', r, w''))))"

definition run_benchmark ::
  "config \<Rightarrow> env \<Rightarrow> string \<Rightarrow> string \<Rightarrow> string \<Rightarrow> world \<Rightarrow> trace \<times> (exn + unit) \<times> world" where
  "run_benchmark cfg e source_folder input_folder output_folder w =
     (case kill_existing_java_instances e w of
        (t0, Inl x) \<Rightarrow> (t0, Inl x, w)
      | (t0, Inr _) \<Rightarrow>
          (case os_makedirs e output_folder w of
             Inl x \<Rightarrow> (t0 @ [(w, Makedirs output_folder)], Inl x, w)
           | Inr w1 \<Rightarrow>
               (let t1 = t0 @ [(w, Makedirs output_folder),
                               (w1, Print (''Using JAR: '' @ jar_path source_folder)),
                               (w1, Listdir input_folder)]
                in case os_listdir e input_folder w1 of
                     Inl m \<Rightarrow> (t1, Inl (OSError m), w1)
                   | Inr names \<Rightarrow>
                       (case run_files cfg e source_folder input_folder output_folder names w1 of
                          (t2, r, w2) \<Rightarrow> (t1 @ t2, r, w2)))))"

subsection \<open>The script's entry point\<close>

text \<open>\<open>argv\<close> is \<open>sys.argv\<close>: the script's name and its arguments.\<close>

definition main :: "config \<Rightarrow> env \<Rightarrow> string list \<Rightarrow> world \<Rightarrow> trace \<times> (exn + unit) \<times> world" where
  "main cfg e argv w =
     (if length argv \<noteq> 4
      then ([(w, Print ''Usage: python run_challenge.py <source_folder> <input_folder> <output_folder>'')],
            Inl (SystemExit 1), w)
      else
        (let source_folder = abspath e (argv ! 1);
             input_folder = abspath e (argv ! 2);
             output_folder = abspath e (argv ! 3)
         in case compile_code e source_folder w of
              (t, Inl x, w') \<Rightarrow> (t, Inl x, w')
            | (t, Inr ok, w') \<Rightarrow>
                if ok
                then (case run_benchmark cfg e source_folder input_folder output_folder w' of
                        (t', r, w'') \<Rightarrow> (t @ t', r, w''))
                else (t, Inr (), w')))"

section \<open>Reading a run\<close>

text \<open>What a trace shows of the child processes: command, working directory and streams, in order.\<close>

fun spawned :: "trace \<Rightarrow> (string list \<times> string \<times> stdio) list" where
  "spawned [] = []"
| "spawned ((w, Spawn cmd cwd io) # t) = (cmd, cwd, io) # spawned t"
| "spawned (_ # t) = spawned t"

text \<open>The processes a run tried to kill, and the directories it listed.\<close>

fun kills :: "trace \<Rightarrow> nat list" where
  "kills [] = []"
| "kills ((w, Kill n) # t) = n # kills t"
| "kills (_ # t) = kills t"

fun listed :: "trace \<Rightarrow> string list" where
  "listed [] = []"
| "listed ((w, Listdir d) # t) = d # listed t"
| "listed (_ # t) = listed t"



text \<open>A process is stale when its command line, joined by blanks, names the solver's jar.\<close>

definition references_jar :: "process \<Rightarrow> bool" where
  "references_jar p =
     (case cmdline p of
        None \<Rightarrow> False
      | Some cl \<Rightarrow> contains (str_join '' '' cl) ''ChallengeSBPO2025-1.0.jar'')"

text \<open>What the sweep does for one process: nothing, or the notice and the kill, and the report
  when the kill failed.\<close>

definition sweep_of :: "world \<Rightarrow> process \<Rightarrow> trace" where
  "sweep_of w p =
     (if references_jar p
      then [(w, Print (''Killing stale Java process: PID '' @ str_nat (pid p))), (w, Kill (pid p))]
           @ (case kill_raises p of
                None \<Rightarrow> []
              | Some m \<Rightarrow>
                  [(w, Print (''Failed to kill process '' @ str_nat (pid p) @ '': '' @ m))])
      else [])"

text \<open>The two actions that start one solver invocation, and the solver's spawn as a trace shows it.\<close>

definition running ::
  "config \<Rightarrow> env \<Rightarrow> string \<Rightarrow> string \<Rightarrow> string \<Rightarrow> string \<Rightarrow> world \<Rightarrow> trace" where
  "running cfg e src inp out f w =
     [(w, Print (''Running '' @ f)), (w, Spawn (cmd_for cfg e src inp out f) src StderrPipe)]"

definition solver_spawn ::
  "config \<Rightarrow> env \<Rightarrow> string \<Rightarrow> string \<Rightarrow> string \<Rightarrow> string \<Rightarrow> string list \<times> string \<times> stdio" where
  "solver_spawn cfg e src inp out f = (cmd_for cfg e src inp out f, src, StderrPipe)"

text \<open>What \<open>run_benchmark\<close> does before its loop, when the output directory could be made
  (\<open>w1\<close> is the host after \<open>os.makedirs\<close>).\<close>

definition startup :: "env \<Rightarrow> string \<Rightarrow> string \<Rightarrow> string \<Rightarrow> world \<Rightarrow> world \<Rightarrow> trace" where
  "startup e src inp out w w1 =
     fst (kill_existing_java_instances e w)
     @ [(w, Makedirs out), (w1, Print (''Using JAR: '' @ jar_path src)), (w1, Listdir inp)]"

section \<open>A sample host\<close>

definition sample_processes :: "process list" where
  "sample_processes =
     [\<lparr>pid = 101,
       cmdline = Some [''java'', ''-Xmx16g'', ''-jar'',
                       ''/work/solver/target/ChallengeSBPO2025-1.0.jar'', ''a.txt'', ''b.txt''],
       kill_raises = None\<rparr>,
      \<lparr>pid = 7, cmdline = None, kill_raises = None\<rparr>,
      \<lparr>pid = 202,
       cmdline = Some [''java'', ''-jar'', ''target/ChallengeSBPO2025-1.0.jar''],
       kill_raises = Some ''psutil.AccessDenied (pid=202)''\<rparr>,
      \<lparr>pid = 303, cmdline = Some [''bash''], kill_raises = None\<rparr>]"

text \<open>
  A macOS host with home \<open>/Users/ana\<close>. The input directory \<open>/data/in\<close> holds \<open>names\<close>; a
  child process exits with the status and error text \<open>outcome\<close> gives for its command and
  leaves the host as it was.
\<close>

definition sample_host :: "string list \<Rightarrow> (string list \<Rightarrow> completed) \<Rightarrow> env" where
  "sample_host names outcome =
     \<lparr>HOME = Some ''/Users/ana'',
      platform_system = ''Darwin'',
      process_iter = sample_processes,
      abspath = (\<lambda>p. p),
      makedirs_refused = (\<lambda>name w. None),
      os_listdir = (\<lambda>d w. if d = ''/data/in'' then Inr names
                           else Inl ''No such file or directory''),
      subprocess_run = (\<lambda>cmd cwd w. (Inr (outcome cmd), w))\<rparr>"

text \<open>Every child succeeds, but the one given the input path \<open>bad\<close>, which exits with \<open>code\<close>.\<close>

definition fails_on :: "string \<Rightarrow> int \<Rightarrow> string list \<Rightarrow> completed" where
  "fails_on bad code cmd =
     (if bad \<in> set cmd then \<lparr>returncode = code, stderr = ''solver: no solution''\<rparr>
      else \<lparr>returncode = 0, stderr = []\<rparr>)"

text \<open>The build fails with a compiler error; every other child succeeds.\<close>

definition build_fails :: "string list \<Rightarrow> completed" where
  "build_fails cmd =
     (if cmd = [''mvn'', ''clean'', ''package'']
      then \<lparr>returncode = 1, stderr = ''[ERROR] COMPILATION ERROR''\<rparr>
      else \<lparr>returncode = 0, stderr = []\<rparr>)"

definition sample_world :: world where
  "sample_world = \<lparr>dirs = [''/data'', ''/data/in'', ''/work'', ''/work/solver'']\<rparr>"

definition sample_world_out :: world where
  "sample_world_out =
     \<lparr>dirs = [''/data'', ''/data/in'', ''/work'', ''/work/solver'', ''/data/out'', ''/data/out/run1'']\<rparr>"

section \<open>The stale-process sweep\<close>

lemma scan_condition:
  "(case cmdline p of
      None \<Rightarrow> False
    | Some cl \<Rightarrow> cl \<noteq> [] \<and> contains (str_join '' '' cl) ''ChallengeSBPO2025-1.0.jar'')
   = references_jar p"
  by (auto simp: references_jar_def startswith_def split: option.splits)

lemma kill_scan_sweep: "kill_scan w ps = (concat (map (sweep_of w) ps), Inr ())"
proof (induction ps)
  case Nil
  show ?case by simp
next
  case (Cons p ps)
  show ?case
  proof (cases "references_jar p")
    case False
    then show ?thesis using Cons by (simp add: scan_condition sweep_of_def)
  next
    case True
    then show ?thesis using Cons
      by (cases "kill_raises p") (simp_all add: scan_condition sweep_of_def proc_kill_def)
  qed
qed

lemma kills_append: "kills (a @ b) = kills a @ kills b"
  by (induction a rule: kills.induct) simp_all

lemma kills_sweep: "kills (concat (map (sweep_of w) ps)) = [pid p. p \<leftarrow> ps, references_jar p]"
  by (induction ps) (auto simp: kills_append sweep_of_def split: option.splits)

lemma spawned_append: "spawned (a @ b) = spawned a @ spawned b"
  by (induction a rule: spawned.induct) simp_all

lemma listed_append: "listed (a @ b) = listed a @ listed b"
  by (induction a rule: listed.induct) simp_all

lemma spawned_sweep: "spawned (concat (map (sweep_of w) ps)) = []"
  by (induction ps) (auto simp: spawned_append sweep_of_def split: option.splits)

lemma listed_sweep: "listed (concat (map (sweep_of w) ps)) = []"
  by (induction ps) (auto simp: listed_append sweep_of_def split: option.splits)

lemma sweep_trace: "kill_existing_java_instances e w = (concat (map (sweep_of w) (process_iter e)), Inr ())"
  by (simp add: kill_existing_java_instances_def kill_scan_sweep)

text \<open>Past the sweep, \<open>run_benchmark\<close> is the creation of the directory and what follows it.\<close>

lemma run_benchmark_after_sweep:
  "run_benchmark cfg e src inp out w =
     (case os_makedirs e out w of
        Inl x \<Rightarrow> (fst (kill_existing_java_instances e w) @ [(w, Makedirs out)], Inl x, w)
      | Inr w1 \<Rightarrow>
          (case os_listdir e inp w1 of
             Inl m \<Rightarrow> (startup e src inp out w w1, Inl (OSError m), w1)
           | Inr names \<Rightarrow>
               (case run_files cfg e src inp out names w1 of
                  (t2, r, w2) \<Rightarrow> (startup e src inp out w w1 @ t2, r, w2))))"
  by (simp add: run_benchmark_def sweep_trace startup_def Let_def split: sum.splits prod.splits)

section \<open>The library path\<close>

text \<open>
  Claim C3, as the code has it. For each of the four combinations of the two library
  toggles the search path is: nothing when neither library is enabled; the location of the
  one enabled library when exactly one is; and, when both are, the OR-Tools location (the
  second library), a colon, and the CPLEX location (the first library), in this order.
\<close>

theorem libraries_by_toggles:
  "libraries \<lparr>USE_CPLEX = False, USE_OR_TOOLS = False, USE_TIMEOUT = t\<rparr> e = None
   \<and> libraries \<lparr>USE_CPLEX = True, USE_OR_TOOLS = False, USE_TIMEOUT = t\<rparr> e = Some (CPLEX_PATH e)
   \<and> libraries \<lparr>USE_CPLEX = False, USE_OR_TOOLS = True, USE_TIMEOUT = t\<rparr> e = Some (OR_TOOLS_PATH e)
   \<and> libraries \<lparr>USE_CPLEX = True, USE_OR_TOOLS = True, USE_TIMEOUT = t\<rparr> e
         = Some (OR_TOOLS_PATH e @ '':'' @ CPLEX_PATH e)"
  by (simp add: libraries_def)

text \<open>
  With both libraries enabled on the sample host the path starts with the OR-Tools
  location: it is not the first library's location followed by the second's.
\<close>

theorem libraries_first_then_second_counterexample:
  "libraries \<lparr>USE_CPLEX = True, USE_OR_TOOLS = True, USE_TIMEOUT = False\<rparr>
       (sample_host [] (fails_on [] 0))
     = Some ''/Users/ana/Documents/or-tools/build/lib/:/Users/ana/CPLEX_Studio2211/opl/bin/arm64_osx/''
   \<and> libraries \<lparr>USE_CPLEX = True, USE_OR_TOOLS = True, USE_TIMEOUT = False\<rparr>
       (sample_host [] (fails_on [] 0))
     \<noteq> Some (CPLEX_PATH (sample_host [] (fails_on [] 0)) @ '':''
             @ OR_TOOLS_PATH (sample_host [] (fails_on [] 0)))"
  by (simp add: libraries_def CPLEX_PATH_def OR_TOOLS_PATH_def expandvars_HOME_def sample_host_def)

section \<open>The sweep is best-effort\<close>

text \<open>
  Claim C9. The sweep never raises, whatever the process table holds and whichever kills
  fail. Its actions are, process by process in scan order, those of \<open>sweep_of\<close>: for a
  process whose command line names the jar, the notice and one kill attempt, followed by
  the printed report when the attempt failed; nothing for any other process. So the
  processes it tries to kill are exactly the stale ones, each once, and a failed kill does
  not end the scan. \<open>run_benchmark\<close> always goes on from the sweep to the creation of the
  output directory.
\<close>

theorem stale_sweep_best_effort:
  "snd (kill_existing_java_instances e w) = Inr ()
   \<and> fst (kill_existing_java_instances e w) = concat (map (sweep_of w) (process_iter e))
   \<and> kills (fst (kill_existing_java_instances e w)) = [pid p. p \<leftarrow> process_iter e, references_jar p]
   \<and> (\<exists>t r w'. run_benchmark cfg e src inp out w
                  = (fst (kill_existing_java_instances e w) @ (w, Makedirs out) # t, r, w'))"
proof -
  have "\<exists>t r w'. run_benchmark cfg e src inp out w
                  = (fst (kill_existing_java_instances e w) @ (w, Makedirs out) # t, r, w')"
    unfolding run_benchmark_after_sweep startup_def
    by (auto split: sum.splits prod.splits)
  then show ?thesis
    by (simp add: sweep_trace kills_sweep)
qed

text \<open>
  On the sample host two of the four processes are stale; the second one resists, which
  is reported, and the sweep still ends normally.
\<close>

theorem stale_sweep_best_effort_witness:
  "snd (kill_existing_java_instances (sample_host [] (fails_on [] 0)) sample_world) = Inr ()
   \<and> kills (fst (kill_existing_java_instances (sample_host [] (fails_on [] 0)) sample_world))
       = [101, 202]
   \<and> fst (kill_existing_java_instances (sample_host [] (fails_on [] 0)) sample_world)
       = [(sample_world, Print ''Killing stale Java process: PID 101''),
          (sample_world, Kill 101),
          (sample_world, Print ''Killing stale Java process: PID 202''),
          (sample_world, Kill 202),
          (sample_world, Print ''Failed to kill process 202: psutil.AccessDenied (pid=202)'')]"
proof -
  have a: "[pid p. p \<leftarrow> process_iter (sample_host [] (fails_on [] 0)), references_jar p] = [101, 202]"
    by code_simp
  have b: "concat (map (sweep_of sample_world) (process_iter (sample_host [] (fails_on [] 0))))
       = [(sample_world, Print ''Killing stale Java process: PID 101''),
          (sample_world, Kill 101),
          (sample_world, Print ''Killing stale Java process: PID 202''),
          (sample_world, Kill 202),
          (sample_world, Print ''Failed to kill process 202: psutil.AccessDenied (pid=202)'')]"
    by code_simp
  show ?thesis
    using stale_sweep_best_effort [of "sample_host [] (fails_on [] 0)" sample_world] a b
    by simp
qed

section \<open>The loop over the input files\<close>

text \<open>One pass of the loop body, by what the child process did.\<close>

lemma spawned_running [simp]: "spawned (running cfg e src inp out f w) = [solver_spawn cfg e src inp out f]"
  by (simp add: running_def solver_spawn_def)

lemma run_files_not_started:
  assumes "endswith f ''.txt''"
    and "subprocess_run e (cmd_for cfg e src inp out f) src w = (Inl m, w1)"
  shows "run_files cfg e src inp out (f # fs) w = (running cfg e src inp out f w, Inl (OSError m), w1)"
  using assms by (auto simp add: running_def Let_def)

lemma run_files_timed_out:
  assumes "endswith f ''.txt''"
    and "subprocess_run e (cmd_for cfg e src inp out f) src w = (Inr result, w1)"
    and "USE_TIMEOUT cfg" and "returncode result = 124"
  shows "run_files cfg e src inp out (f # fs) w =
     (running cfg e src inp out f w
        @ [(w1, Print (''Execution timed out after 605s for '' @ input_file inp f))],
      Inl (TimeoutError (''Execution timed out after 605s for '' @ input_file inp f)), w1)"
  using assms by (simp add: running_def MAX_RUNNING_TIME_def Let_def)

lemma run_files_failed:
  assumes "endswith f ''.txt''"
    and "subprocess_run e (cmd_for cfg e src inp out f) src w = (Inr result, w1)"
    and "returncode result \<noteq> 0" and "\<not> (USE_TIMEOUT cfg \<and> returncode result = 124)"
  shows "run_files cfg e src inp out (f # fs) w =
     (running cfg e src inp out f w
        @ [(w1, Print (''Execution failed for '' @ input_file inp f @ '':'')),
           (w1, Print (stderr result))],
      Inl (RuntimeError (''Execution failed for '' @ input_file inp f @ '': '' @ stderr result)), w1)"
  using assms by (auto simp add: running_def Let_def)

lemma run_files_passed:
  assumes "endswith f ''.txt''"
    and "subprocess_run e (cmd_for cfg e src inp out f) src w = (Inr result, w1)"
    and "returncode result = 0"
  shows "run_files cfg e src inp out (f # fs) w =
     (case run_files cfg e src inp out fs w1 of
        (t', r, w'') \<Rightarrow> (running cfg e src inp out f w @ t', r, w''))"
  using assms by (auto simp add: running_def Let_def)

lemma run_files_skipped:
  "\<not> endswith f ''.txt'' \<Longrightarrow>
     run_files cfg e src inp out (f # fs) w = run_files cfg e src inp out fs w"
  by simp

lemma run_files_append:
  "run_files cfg e src inp out (xs @ ys) w =
     (case run_files cfg e src inp out xs w of
        (t, Inl x, w') \<Rightarrow> (t, Inl x, w')
      | (t, Inr u, w') \<Rightarrow>
          (case run_files cfg e src inp out ys w' of (t', r, w'') \<Rightarrow> (t @ t', r, w'')))"
proof (induction xs arbitrary: w)
  case Nil
  show ?case by (simp split: prod.splits)
next
  case (Cons x xs)
  show ?case
  proof (cases "endswith x ''.txt''")
    case False
    then show ?thesis using Cons by simp
  next
    case istxt: True
    obtain res w1 where sp: "subprocess_run e (cmd_for cfg e src inp out x) src w = (res, w1)"
      by (cases "subprocess_run e (cmd_for cfg e src inp out x) src w")
    show ?thesis
    proof (cases res)
      case (Inl m)
      then show ?thesis
        using run_files_not_started[OF istxt, of e cfg src inp out w m w1] sp by simp
    next
      case res: (Inr result)
      consider (timeout) "USE_TIMEOUT cfg" "returncode result = 124"
        | (failed) "returncode result \<noteq> 0" "\<not> (USE_TIMEOUT cfg \<and> returncode result = 124)"
        | (passed) "returncode result = 0"
        by auto
      then show ?thesis
      proof cases
        case timeout
        then show ?thesis
          using run_files_timed_out[OF istxt, of e cfg src inp out w result w1] sp res by simp
      next
        case failed
        then show ?thesis
          using run_files_failed[OF istxt, of e cfg src inp out w result w1] sp res by simp
      next
        case passed
        then have step: "\<And>fs. run_files cfg e src inp out (x # fs) w =
            (case run_files cfg e src inp out fs w1 of
               (t', r, w'') \<Rightarrow> (running cfg e src inp out x w @ t', r, w''))"
          using run_files_passed[OF istxt, of e cfg src inp out w result w1] sp res by simp
        show ?thesis
          unfolding append_Cons step Cons.IH
          by (simp split: prod.splits sum.splits)
      qed
    qed
  qed
qed

lemma run_files_none:
  "\<forall>f \<in> set names. \<not> endswith f ''.txt'' \<Longrightarrow> run_files cfg e src inp out names w = ([], Inr (), w)"
  by (induction names) simp_all

lemma run_files_spawned:
  "run_files cfg e src inp out names w = (t, r, w') \<Longrightarrow>
     \<exists>k. spawned t = map (solver_spawn cfg e src inp out) (take k (filter (\<lambda>f. endswith f ''.txt'') names))
       \<and> (r = Inr () \<longrightarrow> spawned t = map (solver_spawn cfg e src inp out) (filter (\<lambda>f. endswith f ''.txt'') names))"
proof (induction names arbitrary: w t r w')
  case Nil
  then show ?case by simp
next
  case (Cons f fs)
  show ?case
  proof (cases "endswith f ''.txt''")
    case False
    with Cons show ?thesis by simp
  next
    case istxt: True
    obtain res w1 where sp: "subprocess_run e (cmd_for cfg e src inp out f) src w = (res, w1)"
      by (cases "subprocess_run e (cmd_for cfg e src inp out f) src w")
    have one: "spawned t = [solver_spawn cfg e src inp out f] \<Longrightarrow> r \<noteq> Inr () \<Longrightarrow> ?thesis"
      using istxt by (intro exI[of _ 1]) simp
    show ?thesis
    proof (cases res)
      case (Inl m)
      then show ?thesis
        using Cons.prems run_files_not_started[OF istxt, of e cfg src inp out w m w1 fs] sp
        by (intro one) auto
    next
      case res: (Inr result)
      consider (timeout) "USE_TIMEOUT cfg" "returncode result = 124"
        | (failed) "returncode result \<noteq> 0" "\<not> (USE_TIMEOUT cfg \<and> returncode result = 124)"
        | (passed) "returncode result = 0"
        by auto
      then show ?thesis
      proof cases
        case timeout
        then show ?thesis
          using Cons.prems run_files_timed_out[OF istxt, of e cfg src inp out w result w1 fs] sp res
          by (intro one) (auto simp: spawned_append)
      next
        case failed
        then show ?thesis
          using Cons.prems run_files_failed[OF istxt, of e cfg src inp out w result w1 fs] sp res
          by (intro one) (auto simp: spawned_append)
      next
        case passed
        obtain t2 r2 w2 where rest: "run_files cfg e src inp out fs w1 = (t2, r2, w2)"
          by (cases "run_files cfg e src inp out fs w1") auto
        have "run_files cfg e src inp out (f # fs) w = (running cfg e src inp out f w @ t2, r2, w2)"
          using run_files_passed[OF istxt, of e cfg src inp out w result w1 fs] sp res passed rest
          by simp
        with Cons.prems have t: "spawned t = solver_spawn cfg e src inp out f # spawned t2" and r: "r = r2"
          by (auto simp: spawned_append)
        from Cons.IH[OF rest] obtain k where
          k: "spawned t2 = map (solver_spawn cfg e src inp out) (take k (filter (\<lambda>f. endswith f ''.txt'') fs))"
          and all: "r2 = Inr () \<longrightarrow> spawned t2 = map (solver_spawn cfg e src inp out) (filter (\<lambda>f. endswith f ''.txt'') fs)"
          by blast
        show ?thesis using t r k all istxt
          by (intro exI[of _ "Suc k"]) simp
      qed
    qed
  qed
qed


section \<open>A whole run\<close>

lemma spawned_startup: "spawned (startup e src inp out w w1) = []"
  by (simp add: startup_def sweep_trace spawned_append spawned_sweep)

lemma listed_startup: "listed (startup e src inp out w w1) = [inp]"
  by (simp add: startup_def sweep_trace listed_append listed_sweep)

lemma run_benchmark_reaches:
  assumes mk: "os_makedirs e out w = Inr w1"
    and ls: "os_listdir e inp w1 = Inr (before @ f # after)"
    and pre: "run_files cfg e src inp out before w1 = (t1, Inr (), w2)"
  shows "run_benchmark cfg e src inp out w =
     (case run_files cfg e src inp out (f # after) w2 of
        (t, r, w') \<Rightarrow> (startup e src inp out w w1 @ t1 @ t, r, w'))"
  by (simp add: run_benchmark_after_sweep mk ls run_files_append pre split: prod.splits)

lemma spawned_passed:
  assumes "run_files cfg e src inp out before w1 = (t1, Inr (), w2)"
  shows "spawned t1 = map (solver_spawn cfg e src inp out) (filter (\<lambda>n. endswith n ''.txt'') before)"
  using run_files_spawned[OF assms] by simp

text \<open>On the sample host the output directory \<open>/data/out/run1\<close> and its parent are made.\<close>

lemma sample_makedirs:
  "os_makedirs (sample_host names outcome) ''/data/out/run1'' sample_world = Inr sample_world_out"
  by (simp add: os_makedirs_def sample_host_def sample_world_def sample_world_out_def path_levels_def upt_rec)

section \<open>Exit status 124\<close>

text \<open>
  Claim C1. Take any run in which the output directory could be made, the listing of the
  input directory is \<open>before @ f # after\<close>, every invocation for \<open>before\<close> passed, \<open>f\<close> has
  the suffix and its child exits with status 124. With the timeout feature enabled the run
  ends there with a \<open>TimeoutError\<close> whose text holds the configured duration and the path of
  \<open>f\<close>; with the feature disabled it ends there with a \<open>RuntimeError\<close> for that path and the
  captured error text, as for any other non-zero status. In both cases the child for \<open>f\<close> is
  the last one spawned: nothing is run for \<open>after\<close>.
\<close>

theorem timeout_status_classified_by_toggle:
  assumes mk: "os_makedirs e out w = Inr w1"
    and ls: "os_listdir e inp w1 = Inr (before @ f # after)"
    and pre: "run_files cfg e src inp out before w1 = (t1, Inr (), w2)"
    and istxt: "endswith f ''.txt''"
    and sp: "subprocess_run e (cmd_for cfg e src inp out f) src w2 = (Inr result, w3)"
    and rc: "returncode result = 124"
  shows "run_benchmark cfg e src inp out w =
     (if USE_TIMEOUT cfg
      then (startup e src inp out w w1 @ t1 @ running cfg e src inp out f w2
              @ [(w3, Print (''Execution timed out after '' @ MAX_RUNNING_TIME @ '' for ''
                              @ input_file inp f))],
            Inl (TimeoutError (''Execution timed out after '' @ MAX_RUNNING_TIME @ '' for ''
                               @ input_file inp f)),
            w3)
      else (startup e src inp out w w1 @ t1 @ running cfg e src inp out f w2
              @ [(w3, Print (''Execution failed for '' @ input_file inp f @ '':'')),
                 (w3, Print (stderr result))],
            Inl (RuntimeError (''Execution failed for '' @ input_file inp f @ '': ''
                               @ stderr result)),
            w3))
   \<and> spawned (fst (run_benchmark cfg e src inp out w))
       = map (solver_spawn cfg e src inp out) (filter (\<lambda>n. endswith n ''.txt'') before @ [f])"
proof (cases "USE_TIMEOUT cfg")
  case True
  then show ?thesis
    using run_files_timed_out[OF istxt sp True rc, of after]
    by (simp add: run_benchmark_reaches[OF mk ls pre] spawned_append spawned_startup
          spawned_passed[OF pre] MAX_RUNNING_TIME_def)
next
  case False
  then have "returncode result \<noteq> 0" "\<not> (USE_TIMEOUT cfg \<and> returncode result = 124)"
    using rc by simp_all
  from run_files_failed[OF istxt sp this, of after] False show ?thesis
    by (simp add: run_benchmark_reaches[OF mk ls pre] spawned_append spawned_startup
          spawned_passed[OF pre])
qed

text \<open>
  The sample host, the child for \<open>c.txt\<close> exiting with 124: a timeout failure with the
  feature enabled, an execution failure with the shipped setting, and \<open>d.txt\<close> never run.
\<close>

theorem timeout_status_classified_by_toggle_witness:
  "fst (snd (run_benchmark (shipped_config\<lparr>USE_TIMEOUT := True\<rparr>)
               (sample_host [''a.txt'', ''notes.md'', ''c.txt'', ''d.txt''] (fails_on ''/data/in/c.txt'' 124))
               ''/work/solver'' ''/data/in'' ''/data/out/run1'' sample_world))
     = Inl (TimeoutError ''Execution timed out after 605s for /data/in/c.txt'')
   \<and> map (\<lambda>(cmd, cwd, io). last (butlast cmd))
         (spawned (fst (run_benchmark (shipped_config\<lparr>USE_TIMEOUT := True\<rparr>)
               (sample_host [''a.txt'', ''notes.md'', ''c.txt'', ''d.txt''] (fails_on ''/data/in/c.txt'' 124))
               ''/work/solver'' ''/data/in'' ''/data/out/run1'' sample_world)))
     = [''/data/in/a.txt'', ''/data/in/c.txt'']
   \<and> fst (snd (run_benchmark shipped_config
               (sample_host [''a.txt'', ''notes.md'', ''c.txt'', ''d.txt''] (fails_on ''/data/in/c.txt'' 124))
               ''/work/solver'' ''/data/in'' ''/data/out/run1'' sample_world))
     = Inl (RuntimeError ''Execution failed for /data/in/c.txt: solver: no solution'')"
proof -
  let ?H = "sample_host [''a.txt'', ''notes.md'', ''c.txt'', ''d.txt''] (fails_on ''/data/in/c.txt'' 124)"
  let ?on = "shipped_config\<lparr>USE_TIMEOUT := True\<rparr>"
  let ?r = "\<lparr>returncode = 124, stderr = ''solver: no solution''\<rparr>"
  have ls: "os_listdir ?H ''/data/in'' sample_world_out = Inr ([''a.txt'', ''notes.md''] @ ''c.txt'' # [''d.txt''])"
    by (simp add: sample_host_def)
  have pre_on: "run_files ?on ?H ''/work/solver'' ''/data/in'' ''/data/out/run1'' [''a.txt'', ''notes.md''] sample_world_out
       = (running ?on ?H ''/work/solver'' ''/data/in'' ''/data/out/run1'' ''a.txt'' sample_world_out, Inr (), sample_world_out)"
    by code_simp
  have pre_off: "run_files shipped_config ?H ''/work/solver'' ''/data/in'' ''/data/out/run1'' [''a.txt'', ''notes.md''] sample_world_out
       = (running shipped_config ?H ''/work/solver'' ''/data/in'' ''/data/out/run1'' ''a.txt'' sample_world_out, Inr (), sample_world_out)"
    by code_simp
  have istxt: "endswith ''c.txt'' ''.txt''" by code_simp
  have sp_on: "subprocess_run ?H (cmd_for ?on ?H ''/work/solver'' ''/data/in'' ''/data/out/run1'' ''c.txt'') ''/work/solver'' sample_world_out
       = (Inr ?r, sample_world_out)"
    by code_simp
  have sp_off: "subprocess_run ?H (cmd_for shipped_config ?H ''/work/solver'' ''/data/in'' ''/data/out/run1'' ''c.txt'') ''/work/solver'' sample_world_out
       = (Inr ?r, sample_world_out)"
    by code_simp
  have rc: "returncode ?r = 124" by simp
  note on = timeout_status_classified_by_toggle [OF sample_makedirs ls pre_on istxt sp_on rc]
  note off = timeout_status_classified_by_toggle [OF sample_makedirs ls pre_off istxt sp_off rc]
  have inp: "input_file ''/data/in'' ''c.txt'' = ''/data/in/c.txt''"
    by code_simp
  have cmds: "map (\<lambda>(cmd, cwd, io). last (butlast cmd))
          [solver_spawn ?on ?H ''/work/solver'' ''/data/in'' ''/data/out/run1'' ''a.txt'',
           solver_spawn ?on ?H ''/work/solver'' ''/data/in'' ''/data/out/run1'' ''c.txt'']
        = [''/data/in/a.txt'', ''/data/in/c.txt'']"
    by code_simp
  have flt: "endswith ''a.txt'' ''.txt''" "\<not> endswith ''notes.md'' ''.txt''"
    by code_simp+
  have t: "USE_TIMEOUT ?on" "\<not> USE_TIMEOUT shipped_config"
    by (simp_all add: shipped_config_def)
  have c1: "fst (snd (run_benchmark ?on ?H ''/work/solver'' ''/data/in'' ''/data/out/run1'' sample_world))
     = Inl (TimeoutError ''Execution timed out after 605s for /data/in/c.txt'')"
    using on [THEN conjunct1] by (simp add: inp t MAX_RUNNING_TIME_def)
  have c2: "spawned (fst (run_benchmark ?on ?H ''/work/solver'' ''/data/in'' ''/data/out/run1'' sample_world))
     = [solver_spawn ?on ?H ''/work/solver'' ''/data/in'' ''/data/out/run1'' ''a.txt'',
        solver_spawn ?on ?H ''/work/solver'' ''/data/in'' ''/data/out/run1'' ''c.txt'']"
    using on [THEN conjunct2] by (simp add: flt)
  have c3: "fst (snd (run_benchmark shipped_config ?H ''/work/solver'' ''/data/in'' ''/data/out/run1'' sample_world))
     = Inl (RuntimeError ''Execution failed for /data/in/c.txt: solver: no solution'')"
    using off [THEN conjunct1] by (simp add: inp t)
  show ?thesis
    unfolding c1 c2 c3 cmds by simp
qed

section \<open>The first failure ends the batch\<close>

text \<open>
  Claim C2. In the same situation, when the child for \<open>f\<close> is the first to exit with a
  non-zero status that is not classified as a timeout, the run ends there: the failure and
  the captured error text are printed, a \<open>RuntimeError\<close> naming the path of \<open>f\<close> and
  carrying that text is raised, and the children spawned are exactly those of the suffixed
  entries of \<open>before\<close>, each once, followed by the one for \<open>f\<close>. Nothing is run for
  \<open>after\<close>, nothing is run twice, and nothing is printed after the failure.
\<close>

theorem first_failure_halts_batch:
  assumes mk: "os_makedirs e out w = Inr w1"
    and ls: "os_listdir e inp w1 = Inr (before @ f # after)"
    and pre: "run_files cfg e src inp out before w1 = (t1, Inr (), w2)"
    and istxt: "endswith f ''.txt''"
    and sp: "subprocess_run e (cmd_for cfg e src inp out f) src w2 = (Inr result, w3)"
    and rc: "returncode result \<noteq> 0"
    and nt: "\<not> (USE_TIMEOUT cfg \<and> returncode result = 124)"
  shows "run_benchmark cfg e src inp out w =
     (startup e src inp out w w1 @ t1 @ running cfg e src inp out f w2
        @ [(w3, Print (''Execution failed for '' @ input_file inp f @ '':'')),
           (w3, Print (stderr result))],
      Inl (RuntimeError (''Execution failed for '' @ input_file inp f @ '': '' @ stderr result)),
      w3)
   \<and> spawned (fst (run_benchmark cfg e src inp out w))
       = map (solver_spawn cfg e src inp out) (filter (\<lambda>n. endswith n ''.txt'') before @ [f])"
  using run_files_failed[OF istxt sp rc nt, of after]
  by (simp add: run_benchmark_reaches[OF mk ls pre] spawned_append spawned_startup
        spawned_passed[OF pre])

text \<open>Five input files, the third one failing: the fourth and fifth are never run.\<close>

theorem first_failure_halts_batch_witness:
  "fst (snd (run_benchmark shipped_config
               (sample_host [''a.txt'', ''b.txt'', ''c.txt'', ''d.txt'', ''e.txt''] (fails_on ''/data/in/c.txt'' 1))
               ''/work/solver'' ''/data/in'' ''/data/out/run1'' sample_world))
     = Inl (RuntimeError ''Execution failed for /data/in/c.txt: solver: no solution'')
   \<and> map (\<lambda>(cmd, cwd, io). last (butlast cmd))
         (spawned (fst (run_benchmark shipped_config
               (sample_host [''a.txt'', ''b.txt'', ''c.txt'', ''d.txt'', ''e.txt''] (fails_on ''/data/in/c.txt'' 1))
               ''/work/solver'' ''/data/in'' ''/data/out/run1'' sample_world)))
     = [''/data/in/a.txt'', ''/data/in/b.txt'', ''/data/in/c.txt'']"
proof -
  let ?H = "sample_host [''a.txt'', ''b.txt'', ''c.txt'', ''d.txt'', ''e.txt''] (fails_on ''/data/in/c.txt'' 1)"
  let ?r = "\<lparr>returncode = 1, stderr = ''solver: no solution''\<rparr>"
  let ?run = "run_benchmark shipped_config ?H ''/work/solver'' ''/data/in'' ''/data/out/run1'' sample_world"
  have ls: "os_listdir ?H ''/data/in'' sample_world_out
       = Inr ([''a.txt'', ''b.txt''] @ ''c.txt'' # [''d.txt'', ''e.txt''])"
    by (simp add: sample_host_def)
  have pre: "run_files shipped_config ?H ''/work/solver'' ''/data/in'' ''/data/out/run1''
         [''a.txt'', ''b.txt''] sample_world_out
       = (running shipped_config ?H ''/work/solver'' ''/data/in'' ''/data/out/run1'' ''a.txt'' sample_world_out
          @ running shipped_config ?H ''/work/solver'' ''/data/in'' ''/data/out/run1'' ''b.txt'' sample_world_out,
          Inr (), sample_world_out)"
    by code_simp
  have istxt: "endswith ''c.txt'' ''.txt''" by code_simp
  have sp: "subprocess_run ?H
         (cmd_for shipped_config ?H ''/work/solver'' ''/data/in'' ''/data/out/run1'' ''c.txt'')
         ''/work/solver'' sample_world_out
       = (Inr ?r, sample_world_out)"
    by code_simp
  have rc: "returncode ?r \<noteq> 0" by simp
  have nt: "\<not> (USE_TIMEOUT shipped_config \<and> returncode ?r = 124)" by simp
  note halt = first_failure_halts_batch [OF sample_makedirs ls pre istxt sp rc nt]
  have inp: "input_file ''/data/in'' ''c.txt'' = ''/data/in/c.txt''"
    by code_simp
  have flt: "endswith ''a.txt'' ''.txt''" "endswith ''b.txt'' ''.txt''"
    by code_simp+
  have cmds: "map (\<lambda>(cmd, cwd, io). last (butlast cmd))
          [solver_spawn shipped_config ?H ''/work/solver'' ''/data/in'' ''/data/out/run1'' ''a.txt'',
           solver_spawn shipped_config ?H ''/work/solver'' ''/data/in'' ''/data/out/run1'' ''b.txt'',
           solver_spawn shipped_config ?H ''/work/solver'' ''/data/in'' ''/data/out/run1'' ''c.txt'']
        = [''/data/in/a.txt'', ''/data/in/b.txt'', ''/data/in/c.txt'']"
    by code_simp
  have c1: "fst (snd ?run) = Inl (RuntimeError ''Execution failed for /data/in/c.txt: solver: no solution'')"
    using halt [THEN conjunct1] by (simp add: inp)
  have c2: "spawned (fst ?run)
     = [solver_spawn shipped_config ?H ''/work/solver'' ''/data/in'' ''/data/out/run1'' ''a.txt'',
        solver_spawn shipped_config ?H ''/work/solver'' ''/data/in'' ''/data/out/run1'' ''b.txt'',
        solver_spawn shipped_config ?H ''/work/solver'' ''/data/in'' ''/data/out/run1'' ''c.txt'']"
    using halt [THEN conjunct2] by (simp add: flt)
  show ?thesis
    unfolding c1 c2 cmds by simp
qed

section \<open>Only suffixed entries are run\<close>

text \<open>
  Claim C5. When the output directory could be made and the input directory listed, the
  run lists the input directory and nothing else, and the children it spawns are those of
  the entries ending in \<open>.txt\<close>, in listing order, up to the point where the run stopped;
  all of them when the run ends normally. Every other entry produces no invocation; no
  entry is listed in turn.
\<close>

theorem only_suffix_entries_invoked:
  assumes mk: "os_makedirs e out w = Inr w1"
    and ls: "os_listdir e inp w1 = Inr names"
  shows "listed (fst (run_benchmark cfg e src inp out w)) = [inp]
   \<and> (\<exists>k. spawned (fst (run_benchmark cfg e src inp out w))
            = map (solver_spawn cfg e src inp out) (take k (filter (\<lambda>n. endswith n ''.txt'') names)))
   \<and> (fst (snd (run_benchmark cfg e src inp out w)) = Inr () \<longrightarrow>
        spawned (fst (run_benchmark cfg e src inp out w))
          = map (solver_spawn cfg e src inp out) (filter (\<lambda>n. endswith n ''.txt'') names))"
proof -
  obtain t r w2 where run: "run_files cfg e src inp out names w1 = (t, r, w2)"
    by (cases "run_files cfg e src inp out names w1") auto
  have rb: "run_benchmark cfg e src inp out w = (startup e src inp out w w1 @ t, r, w2)"
    by (simp add: run_benchmark_after_sweep mk ls run)
  have "listed t = []"
    using run
  proof (induction names arbitrary: w1 t r w2)
    case Nil then show ?case by simp
  next
    case (Cons n ns)
    then show ?case
      by (auto simp: Let_def listed_append split: if_splits prod.splits sum.splits)
  qed
  then show ?thesis
    using run_files_spawned[OF run]
    by (simp add: rb listed_append listed_startup spawned_append spawned_startup)
qed

text \<open>Of five entries, a subdirectory among them, only \<open>a.txt\<close> and \<open>c.txt\<close> are run.\<close>

theorem only_suffix_entries_invoked_witness:
  "listed (fst (run_benchmark shipped_config
               (sample_host [''a.txt'', ''notes.md'', ''sub'', ''b.txt.bak'', ''c.txt''] (fails_on [] 0))
               ''/work/solver'' ''/data/in'' ''/data/out/run1'' sample_world))
     = [''/data/in'']
   \<and> map (\<lambda>(cmd, cwd, io). last (butlast cmd))
         (spawned (fst (run_benchmark shipped_config
               (sample_host [''a.txt'', ''notes.md'', ''sub'', ''b.txt.bak'', ''c.txt''] (fails_on [] 0))
               ''/work/solver'' ''/data/in'' ''/data/out/run1'' sample_world)))
     = [''/data/in/a.txt'', ''/data/in/c.txt'']"
proof -
  let ?H = "sample_host [''a.txt'', ''notes.md'', ''sub'', ''b.txt.bak'', ''c.txt''] (fails_on [] 0)"
  let ?run = "run_benchmark shipped_config ?H ''/work/solver'' ''/data/in'' ''/data/out/run1'' sample_world"
  have ls: "os_listdir ?H ''/data/in'' sample_world_out
       = Inr [''a.txt'', ''notes.md'', ''sub'', ''b.txt.bak'', ''c.txt'']"
    by (simp add: sample_host_def)
  note only = only_suffix_entries_invoked [OF sample_makedirs ls, of shipped_config "''/work/solver''"]
  have ok: "fst (snd ?run) = Inr ()"
    by code_simp
  have flt: "filter (\<lambda>n. endswith n ''.txt'') [''a.txt'', ''notes.md'', ''sub'', ''b.txt.bak'', ''c.txt'']
       = [''a.txt'', ''c.txt'']"
    by code_simp
  have cmds: "map (\<lambda>(cmd, cwd, io). last (butlast cmd))
          (map (solver_spawn shipped_config ?H ''/work/solver'' ''/data/in'' ''/data/out/run1'')
             [''a.txt'', ''c.txt''])
        = [''/data/in/a.txt'', ''/data/in/c.txt'']"
    by code_simp
  have c1: "listed (fst ?run) = [''/data/in'']"
    using only by blast
  have c2: "spawned (fst ?run)
     = map (solver_spawn shipped_config ?H ''/work/solver'' ''/data/in'' ''/data/out/run1'')
         [''a.txt'', ''c.txt'']"
    using only ok unfolding flt by blast
  show ?thesis
    unfolding c1 c2 cmds by simp
qed

section \<open>No suffixed entry\<close>

text \<open>
  Claim C10. When the output directory could be made and the listing of the input
  directory holds no entry ending in \<open>.txt\<close> (an empty listing included), \<open>run_benchmark\<close>
  returns normally after its start-up actions: no child is spawned, the sweep has still
  made its kill attempts, and the output directory has still been made and exists.
\<close>

theorem no_recognized_input_completes:
  assumes mk: "os_makedirs e out w = Inr w1"
    and ls: "os_listdir e inp w1 = Inr names"
    and none: "\<forall>n \<in> set names. \<not> endswith n ''.txt''"
  shows "run_benchmark cfg e src inp out w = (startup e src inp out w w1, Inr (), w1)
   \<and> spawned (fst (run_benchmark cfg e src inp out w)) = []
   \<and> kills (fst (run_benchmark cfg e src inp out w)) = [pid p. p \<leftarrow> process_iter e, references_jar p]
   \<and> (w, Makedirs out) \<in> set (fst (run_benchmark cfg e src inp out w))
   \<and> out \<in> set (dirs w1)"
proof -
  have rb: "run_benchmark cfg e src inp out w = (startup e src inp out w w1, Inr (), w1)"
    by (simp add: run_benchmark_after_sweep mk ls run_files_none[OF none])
  have "out \<in> set (dirs w1)"
    using mk by (auto simp: os_makedirs_def path_levels_def split: if_splits option.splits)
  then show ?thesis
    by (simp add: rb spawned_startup) (simp add: startup_def sweep_trace kills_append kills_sweep)
qed

theorem no_recognized_input_completes_witness:
  "run_benchmark shipped_config (sample_host [''notes.md'', ''README'', ''data.csv''] (fails_on [] 0))
       ''/work/solver'' ''/data/in'' ''/data/out/run1'' sample_world
     = (startup (sample_host [''notes.md'', ''README'', ''data.csv''] (fails_on [] 0))
          ''/work/solver'' ''/data/in'' ''/data/out/run1'' sample_world sample_world_out,
        Inr (), sample_world_out)
   \<and> spawned (fst (run_benchmark shipped_config (sample_host [''notes.md'', ''README'', ''data.csv''] (fails_on [] 0))
       ''/work/solver'' ''/data/in'' ''/data/out/run1'' sample_world)) = []
   \<and> ''/data/out/run1'' \<in> set (dirs sample_world_out)"
proof -
  let ?H = "sample_host [''notes.md'', ''README'', ''data.csv''] (fails_on [] 0)"
  have ls: "os_listdir ?H ''/data/in'' sample_world_out = Inr [''notes.md'', ''README'', ''data.csv'']"
    by (simp add: sample_host_def)
  have none: "\<forall>n \<in> set [''notes.md'', ''README'', ''data.csv'']. \<not> endswith n ''.txt''"
    by code_simp
  show ?thesis
    using no_recognized_input_completes [OF sample_makedirs ls none, of shipped_config "''/work/solver''"]
    by blast
qed

section \<open>The output path\<close>

text \<open>The extension of a name ending in \<open>.txt\<close> that holds no separator.\<close>

lemma rfind_from_absent: "c \<notin> set xs \<Longrightarrow> rfind_from xs c i best = best"
  by (induction xs arbitrary: i best) auto

lemma rfind_from_append:
  "rfind_from (xs @ ys) c i best = rfind_from ys c (i + int (length xs)) (rfind_from xs c i best)"
proof (induction xs arbitrary: i best)
  case Nil
  show ?case by simp
next
  case (Cons x xs)
  show ?case by (simp add: Cons.IH add.assoc)
qed

lemma rfind_dot_txt: "rfind (stem @ ''.txt'') CHR ''.'' = int (length stem)"
  by (simp add: rfind_def rfind_from_append)

lemma rfind_no_sep: "CHR ''/'' \<notin> set p \<Longrightarrow> rfind p CHR ''/'' = - 1"
  by (simp add: rfind_def rfind_from_absent)

lemma skip_leading_dots_iff:
  "skip_leading_dots p i n = (\<exists>k. i \<le> k \<and> k < n \<and> p ! k \<noteq> CHR ''.'')"
proof (induction p i n rule: skip_leading_dots.induct)
  case (1 p i n)
  show ?case
  proof (cases "i < n")
    case False
    then have "skip_leading_dots p i n = False"
      by (subst skip_leading_dots.simps) simp
    with False show ?thesis by auto
  next
    case lt: True
    show ?thesis
    proof (cases "p ! i \<noteq> CHR ''.''")
      case True
      with lt have "skip_leading_dots p i n = True"
        by (subst skip_leading_dots.simps) simp
      with lt True show ?thesis by auto
    next
      case False
      then have "skip_leading_dots p i n = skip_leading_dots p (i + 1) n"
        using lt by (subst skip_leading_dots.simps) simp
      also have "\<dots> = (\<exists>k. i + 1 \<le> k \<and> k < n \<and> p ! k \<noteq> CHR ''.'')"
        using "1.IH" lt False by blast
      also have "\<dots> = (\<exists>k. i \<le> k \<and> k < n \<and> p ! k \<noteq> CHR ''.'')"
      proof
        assume "\<exists>k. i + 1 \<le> k \<and> k < n \<and> p ! k \<noteq> CHR ''.''"
        then obtain k where "i + 1 \<le> k" "k < n" "p ! k \<noteq> CHR ''.''" by blast
        then have "i \<le> k \<and> k < n \<and> p ! k \<noteq> CHR ''.''" by simp
        then show "\<exists>k. i \<le> k \<and> k < n \<and> p ! k \<noteq> CHR ''.''" by blast
      next
        assume "\<exists>k. i \<le> k \<and> k < n \<and> p ! k \<noteq> CHR ''.''"
        then obtain k where k: "i \<le> k" "k < n" "p ! k \<noteq> CHR ''.''" by blast
        with False have "k \<noteq> i" by auto
        with k have "i + 1 \<le> k \<and> k < n \<and> p ! k \<noteq> CHR ''.''" by simp
        then show "\<exists>k. i + 1 \<le> k \<and> k < n \<and> p ! k \<noteq> CHR ''.''" by blast
      qed
      finally show ?thesis .
    qed
  qed
qed

lemma some_not_dot:
  "(\<exists>k. 0 \<le> k \<and> k < length stem \<and> (stem @ ''.txt'') ! k \<noteq> CHR ''.'') = (\<exists>c \<in> set stem. c \<noteq> CHR ''.'')"
proof
  assume "\<exists>k. 0 \<le> k \<and> k < length stem \<and> (stem @ ''.txt'') ! k \<noteq> CHR ''.''"
  then obtain k where k: "k < length stem" "(stem @ ''.txt'') ! k \<noteq> CHR ''.''" by blast
  then have "stem ! k \<noteq> CHR ''.''" by (simp add: nth_append)
  with k(1) show "\<exists>c \<in> set stem. c \<noteq> CHR ''.''" using nth_mem by blast
next
  assume "\<exists>c \<in> set stem. c \<noteq> CHR ''.''"
  then obtain c where c: "c \<in> set stem" "c \<noteq> CHR ''.''" by blast
  then obtain k where k: "k < length stem" "stem ! k = c" by (auto simp: in_set_conv_nth)
  then have "(stem @ ''.txt'') ! k \<noteq> CHR ''.''" using c by (simp add: nth_append)
  with k(1) show "\<exists>k. 0 \<le> k \<and> k < length stem \<and> (stem @ ''.txt'') ! k \<noteq> CHR ''.''" by blast
qed

lemma splitext_txt:
  assumes "CHR ''/'' \<notin> set stem"
  shows "splitext (stem @ ''.txt'') =
     (if \<exists>c \<in> set stem. c \<noteq> CHR ''.'' then (stem, ''.txt'') else (stem @ ''.txt'', []))"
proof -
  have sep: "rfind (stem @ ''.txt'') CHR ''/'' = - 1"
    using assms by (intro rfind_no_sep) simp
  have dots: "skip_leading_dots (stem @ ''.txt'') 0 (length stem) = (\<exists>c \<in> set stem. c \<noteq> CHR ''.'')"
    unfolding skip_leading_dots_iff by (rule some_not_dot)
  have "splitext (stem @ ''.txt'') =
      (if skip_leading_dots (stem @ ''.txt'') 0 (length stem)
       then (take (length stem) (stem @ ''.txt''), drop (length stem) (stem @ ''.txt''))
       else (stem @ ''.txt'', []))"
    unfolding splitext_def sep rfind_dot_txt Let_def by simp
  then show ?thesis
    unfolding dots by simp
qed


lemma join2_name:
  assumes "\<not> startswith name ''/''"
  shows "os_path_join out [name] = (if out = [] \<or> endswith out ''/'' then out @ name else out @ ''/'' @ name)"
  using assms by (simp add: os_path_join_def join2_def)

lemma last_cmd_for: "last (cmd_for cfg e src inp out f) = output_file out f"
  by (simp add: cmd_for_def java_cmd_def)

text \<open>
  Claim C6, as the code has it. For an entry ending in \<open>.txt\<close> (entries hold no
  separator), the output path is the output directory joined with a name that depends on
  the entry's name alone: the same name, when some character before the final \<open>.txt\<close> is
  not a dot; the name with a further \<open>.txt\<close> appended, when there are only dots before it
  (or nothing), as then the name has no extension to replace. In the first case, for an
  output directory that is not empty and does not end with a separator, the path is the
  directory, a separator and the name. The path is the last argument of the command,
  whatever the input directory is.
\<close>

theorem output_file_same_name:
  assumes istxt: "endswith f ''.txt''"
    and nosep: "CHR ''/'' \<notin> set f"
  shows "output_file out f
       = os_path_join out [if \<forall>c \<in> set (take (length f - 4) f). c = CHR ''.'' then f @ ''.txt'' else f]
   \<and> ((\<exists>c \<in> set (take (length f - 4) f). c \<noteq> CHR ''.'') \<and> out \<noteq> [] \<and> \<not> endswith out ''/''
        \<longrightarrow> output_file out f = out @ ''/'' @ f)
   \<and> last (cmd_for cfg e src inp out f) = output_file out f"
proof -
  define stem where "stem = take (length f - 4) f"
  have "drop (length f - 4) f = ''.txt''"
    using istxt unfolding endswith_def by (simp add: eval_nat_numeral)
  then have f: "f = stem @ ''.txt''"
    unfolding stem_def by (metis append_take_drop_id)
  have "CHR ''/'' \<notin> set stem" using nosep f by simp
  note sp = splitext_txt[OF this]
  have first: "output_file out f = os_path_join out [if \<forall>c \<in> set stem. c = CHR ''.'' then f @ ''.txt'' else f]"
    unfolding output_file_def f sp by auto
  have ns: "\<not> startswith f ''/''"
  proof
    assume "startswith f ''/''"
    then have "take 1 f = ''/''" by (simp add: startswith_def)
    then have "CHR ''/'' \<in> set f" by (cases f) auto
    with nosep show False by simp
  qed
  show ?thesis
    using first join2_name[OF ns, of out] by (auto simp: stem_def last_cmd_for)
qed

text \<open>\<open>case_001.txt\<close> goes to \<open>case_001.txt\<close> in the output directory, from any input directory.\<close>

theorem output_file_same_name_witness:
  "endswith ''case_001.txt'' ''.txt'' \<and> CHR ''/'' \<notin> set ''case_001.txt''
   \<and> output_file ''/data/out/run1'' ''case_001.txt'' = ''/data/out/run1/case_001.txt''
   \<and> last (cmd_for shipped_config (sample_host [] (fails_on [] 0)) ''/work/solver'' ''/data/in''
              ''/data/out/run1'' ''case_001.txt'') = ''/data/out/run1/case_001.txt''
   \<and> last (cmd_for shipped_config (sample_host [] (fails_on [] 0)) ''/work/solver'' ''/elsewhere/cases''
              ''/data/out/run1'' ''case_001.txt'') = ''/data/out/run1/case_001.txt''"
proof -
  have a: "endswith ''case_001.txt'' ''.txt''" by code_simp
  have b: "CHR ''/'' \<notin> set ''case_001.txt''" by simp
  have c: "\<exists>c \<in> set (take (length ''case_001.txt'' - 4) ''case_001.txt''). c \<noteq> CHR ''.''" by simp
  have d: "''/data/out/run1'' \<noteq> []" "\<not> endswith ''/data/out/run1'' ''/''" by code_simp+
  note t = output_file_same_name [OF a b, of "''/data/out/run1''"]
  have "output_file ''/data/out/run1'' ''case_001.txt'' = ''/data/out/run1'' @ ''/'' @ ''case_001.txt''"
    using t [THEN conjunct2, THEN conjunct1] c d by blast
  then have o: "output_file ''/data/out/run1'' ''case_001.txt'' = ''/data/out/run1/case_001.txt''"
    by simp
  have l: "last (cmd_for cfg e src inp ''/data/out/run1'' ''case_001.txt'')
        = ''/data/out/run1/case_001.txt''" for cfg e src inp
    using t [THEN conjunct2, THEN conjunct2, of cfg e src inp] o by simp
  show ?thesis
    using a b o l by blast
qed

text \<open>
  The entry \<open>.txt\<close> has the suffix, and its output file is \<open>.txt.txt\<close>: not the same name,
  and the very file that the entry \<open>.txt.txt\<close> is given.
\<close>

theorem output_file_dot_name_counterexample:
  "endswith ''.txt'' ''.txt'' \<and> CHR ''/'' \<notin> set ''.txt''
   \<and> output_file ''/data/out/run1'' ''.txt'' = ''/data/out/run1/.txt.txt''
   \<and> output_file ''/data/out/run1'' ''.txt'' \<noteq> os_path_join ''/data/out/run1'' [''.txt'']
   \<and> output_file ''/data/out/run1'' ''.txt'' = output_file ''/data/out/run1'' ''.txt.txt''"
  by code_simp

section \<open>A failed build\<close>

text \<open>
  Claim C4. When the script is given its three arguments and the build tool runs to an
  exit status, \<open>compile_code\<close> returns whether that status is zero. When it is not zero,
  \<open>compile_code\<close> prints the failure notice and the captured error text and returns
  \<open>False\<close>, and the script ends there: its actions are those of \<open>compile_code\<close> alone, the
  build is the only child process, and there is no sweep, no directory made and no listing,
  so \<open>run_benchmark\<close> was not entered.
\<close>

theorem build_failure_short_circuits:
  assumes args: "length argv = 4"
    and build: "subprocess_run e [''mvn'', ''clean'', ''package''] (abspath e (argv ! 1)) w = (Inr result, w1)"
  shows "fst (snd (compile_code e (abspath e (argv ! 1)) w)) = Inr (returncode result = 0)
   \<and> (returncode result \<noteq> 0 \<longrightarrow>
        compile_code e (abspath e (argv ! 1)) w
          = ([(w, Print (''Compiling code in '' @ abspath e (argv ! 1) @ ''...'')),
              (w, Spawn [''mvn'', ''clean'', ''package''] (abspath e (argv ! 1)) CaptureOutput),
              (w1, Print ''Maven compilation failed:''),
              (w1, Print (stderr result))],
             Inr False, w1)
        \<and> main cfg e argv w = (fst (compile_code e (abspath e (argv ! 1)) w), Inr (), w1)
        \<and> spawned (fst (main cfg e argv w))
            = [([''mvn'', ''clean'', ''package''], abspath e (argv ! 1), CaptureOutput)]
        \<and> kills (fst (main cfg e argv w)) = []
        \<and> listed (fst (main cfg e argv w)) = []
        \<and> (\<forall>w' d. (w', Makedirs d) \<notin> set (fst (main cfg e argv w))))"
proof -
  have cc: "compile_code e (abspath e (argv ! 1)) w =
      (if returncode result \<noteq> 0
       then ([(w, Print (''Compiling code in '' @ abspath e (argv ! 1) @ ''...'')),
              (w, Spawn [''mvn'', ''clean'', ''package''] (abspath e (argv ! 1)) CaptureOutput),
              (w1, Print ''Maven compilation failed:''),
              (w1, Print (stderr result))],
             Inr False, w1)
       else ([(w, Print (''Compiling code in '' @ abspath e (argv ! 1) @ ''...'')),
              (w, Spawn [''mvn'', ''clean'', ''package''] (abspath e (argv ! 1)) CaptureOutput),
              (w1, Print ''Maven compilation successful.'')],
             Inr True, w1))"
    unfolding compile_code_def Let_def build by simp
  have m: "returncode result \<noteq> 0 \<Longrightarrow>
      main cfg e argv w = (fst (compile_code e (abspath e (argv ! 1)) w), Inr (), w1)"
    unfolding main_def Let_def cc using args by simp
  show ?thesis
  proof (cases "returncode result = 0")
    case True
    then show ?thesis unfolding cc by simp
  next
    case False
    then show ?thesis unfolding m [OF False] cc by simp
  qed
qed

text \<open>A build that ends with status 1 and a compiler error on its error stream.\<close>

theorem build_failure_short_circuits_witness:
  "compile_code (sample_host [''a.txt''] build_fails) ''/work/solver'' sample_world
     = ([(sample_world, Print ''Compiling code in /work/solver...''),
         (sample_world, Spawn [''mvn'', ''clean'', ''package''] ''/work/solver'' CaptureOutput),
         (sample_world, Print ''Maven compilation failed:''),
         (sample_world, Print ''[ERROR] COMPILATION ERROR'')],
        Inr False, sample_world)
   \<and> main shipped_config (sample_host [''a.txt''] build_fails)
        [''run_challenge.py'', ''/work/solver'', ''/data/in'', ''/data/out/run1''] sample_world
     = ([(sample_world, Print ''Compiling code in /work/solver...''),
         (sample_world, Spawn [''mvn'', ''clean'', ''package''] ''/work/solver'' CaptureOutput),
         (sample_world, Print ''Maven compilation failed:''),
         (sample_world, Print ''[ERROR] COMPILATION ERROR'')],
        Inr (), sample_world)"
proof -
  let ?H = "sample_host [''a.txt''] build_fails"
  let ?argv = "[''run_challenge.py'', ''/work/solver'', ''/data/in'', ''/data/out/run1'']"
  let ?r = "\<lparr>returncode = 1, stderr = ''[ERROR] COMPILATION ERROR''\<rparr>"
  have args: "length ?argv = 4" by simp
  have src: "abspath ?H (?argv ! 1) = ''/work/solver''"
    by (simp add: sample_host_def)
  have build: "subprocess_run ?H [''mvn'', ''clean'', ''package''] (abspath ?H (?argv ! 1)) sample_world
      = (Inr ?r, sample_world)"
    by (simp add: sample_host_def build_fails_def)
  have rc: "returncode ?r \<noteq> 0" by simp
  note t = build_failure_short_circuits [OF args build, of shipped_config, THEN conjunct2, rule_format, OF rc]
  have c: "compile_code ?H ''/work/solver'' sample_world
     = ([(sample_world, Print ''Compiling code in /work/solver...''),
         (sample_world, Spawn [''mvn'', ''clean'', ''package''] ''/work/solver'' CaptureOutput),
         (sample_world, Print ''Maven compilation failed:''),
         (sample_world, Print ''[ERROR] COMPILATION ERROR'')],
        Inr False, sample_world)"
    using t [THEN conjunct1] unfolding src by simp
  have m: "main shipped_config ?H ?argv sample_world
      = (fst (compile_code ?H ''/work/solver'' sample_world), Inr (), sample_world)"
    using t [THEN conjunct2, THEN conjunct1] unfolding src by simp
  show ?thesis
    unfolding m c by simp
qed

section \<open>The solver's command line\<close>

lemma expandvars_HOME_nonempty: "expandvars_HOME e (c # rest) \<noteq> []"
  by (simp add: expandvars_HOME_def split: option.splits)

lemma library_flag:
  "(case libraries cfg e of
      None \<Rightarrow> []
    | Some l \<Rightarrow> if l \<noteq> [] then [''-Djava.library.path='' @ l] else [])
   = (if USE_CPLEX cfg \<or> USE_OR_TOOLS cfg
      then [''-Djava.library.path=''
             @ (if USE_CPLEX cfg \<and> USE_OR_TOOLS cfg then OR_TOOLS_PATH e @ '':'' @ CPLEX_PATH e
                else if USE_CPLEX cfg then CPLEX_PATH e
                else OR_TOOLS_PATH e)]
      else [])"
  using expandvars_HOME_nonempty[of e "CHR ''/''"]
  by (simp add: libraries_def CPLEX_PATH_def OR_TOOLS_PATH_def)

lemma run_files_starts:
  assumes istxt: "endswith f ''.txt''"
  shows "\<exists>t. fst (run_files cfg e src inp out (f # fs) w) = running cfg e src inp out f w @ t"
proof -
  obtain res w1 where sp: "subprocess_run e (cmd_for cfg e src inp out f) src w = (res, w1)"
    by (cases "subprocess_run e (cmd_for cfg e src inp out f) src w")
  show ?thesis
  proof (cases res)
    case (Inl m)
    then show ?thesis
      using run_files_not_started[OF istxt, of e cfg src inp out w m w1 fs] sp by simp
  next
    case res: (Inr result)
    consider (timeout) "USE_TIMEOUT cfg" "returncode result = 124"
      | (failed) "returncode result \<noteq> 0" "\<not> (USE_TIMEOUT cfg \<and> returncode result = 124)"
      | (passed) "returncode result = 0"
      by auto
    then show ?thesis
    proof cases
      case timeout
      then show ?thesis
        using run_files_timed_out[OF istxt, of e cfg src inp out w result w1 fs] sp res by simp
    next
      case failed
      then show ?thesis
        using run_files_failed[OF istxt, of e cfg src inp out w result w1 fs] sp res by simp
    next
      case passed
      then show ?thesis
        using run_files_passed[OF istxt, of e cfg src inp out w result w1 fs] sp res
        by (simp split: prod.splits)
    qed
  qed
qed

lemma run_files_spawns_first:
  "filter (\<lambda>n. endswith n ''.txt'') names \<noteq> [] \<Longrightarrow>
     spawned (fst (run_files cfg e src inp out names w)) \<noteq> []"
proof (induction names)
  case Nil
  then show ?case by simp
next
  case (Cons f fs)
  show ?case
  proof (cases "endswith f ''.txt''")
    case False
    with Cons show ?thesis by simp
  next
    case True
    from run_files_starts[OF True, of cfg e src inp out fs w]
    obtain t where "fst (run_files cfg e src inp out (f # fs) w) = running cfg e src inp out f w @ t"
      by blast
    then show ?thesis by (simp add: spawned_append)
  qed
qed

text \<open>
  Claim C7. The command for an input file is, in this order: when the timeout feature is
  enabled, the wrapper (\<open>gtimeout\<close> on Darwin, \<open>timeout\<close> on any other system) and the
  duration \<open>605s\<close>; \<open>java\<close>; when at least one library is enabled, and only then, the
  library path flag; the two fixed flags; \<open>-jar\<close> and the path of the jar under the source
  directory; the input path; the output path. In a run whose output directory could be
  made and whose input directory could be listed, the children spawned are exactly these
  commands for the entries ending in \<open>.txt\<close>, in listing order, each run in the source
  directory with its error stream piped back: the first such entry always, the following
  ones for as long as the run goes on, and all of them when the run ends normally. The
  model's \<open>subprocess_run\<close> returns the child's exit status, so the driver goes on only
  after the child has ended.
\<close>

theorem solver_command_shape:
  assumes mk: "os_makedirs e out w = Inr w1"
    and ls: "os_listdir e inp w1 = Inr names"
  shows "cmd_for cfg e src inp out f =
     (if USE_TIMEOUT cfg
      then [if platform_system e = ''Darwin'' then ''gtimeout'' else ''timeout'', ''605s'']
      else [])
     @ [''java'']
     @ (if USE_CPLEX cfg \<or> USE_OR_TOOLS cfg
        then [''-Djava.library.path=''
               @ (if USE_CPLEX cfg \<and> USE_OR_TOOLS cfg then OR_TOOLS_PATH e @ '':'' @ CPLEX_PATH e
                  else if USE_CPLEX cfg then CPLEX_PATH e
                  else OR_TOOLS_PATH e)]
        else [])
     @ [''--enable-native-access=ALL-UNNAMED'', ''-Xmx16g'',
        ''-jar'', os_path_join src [''target'', ''ChallengeSBPO2025-1.0.jar''],
        os_path_join inp [f], output_file out f]
   \<and> (\<exists>k. spawned (fst (run_benchmark cfg e src inp out w))
              = map (\<lambda>n. (cmd_for cfg e src inp out n, src, StderrPipe))
                  (take k (filter (\<lambda>n. endswith n ''.txt'') names))
          \<and> (filter (\<lambda>n. endswith n ''.txt'') names \<noteq> [] \<longrightarrow> 0 < k)
          \<and> (fst (snd (run_benchmark cfg e src inp out w)) = Inr ()
               \<longrightarrow> length (filter (\<lambda>n. endswith n ''.txt'') names) \<le> k))"
proof -
  let ?txt = "filter (\<lambda>n. endswith n ''.txt'') names"
  let ?sp = "\<lambda>n. (cmd_for cfg e src inp out n, src, StderrPipe)"
  have shape: "cmd_for cfg e src inp out f =
     timeout_prefix cfg e
     @ [''java'']
     @ (case libraries cfg e of
          None \<Rightarrow> []
        | Some l \<Rightarrow> if l \<noteq> [] then [''-Djava.library.path='' @ l] else [])
     @ [''--enable-native-access=ALL-UNNAMED'', ''-Xmx16g'',
        ''-jar'', os_path_join src [''target'', ''ChallengeSBPO2025-1.0.jar''],
        os_path_join inp [f], output_file out f]"
    by (simp add: cmd_for_def java_cmd_def jar_path_def input_file_def)
  have pre: "timeout_prefix cfg e =
     (if USE_TIMEOUT cfg
      then [if platform_system e = ''Darwin'' then ''gtimeout'' else ''timeout'', ''605s'']
      else [])"
    by (simp add: timeout_prefix_def MAX_RUNNING_TIME_def)
  obtain t r w2 where run: "run_files cfg e src inp out names w1 = (t, r, w2)"
    by (cases "run_files cfg e src inp out names w1") auto
  have rb: "run_benchmark cfg e src inp out w = (startup e src inp out w w1 @ t, r, w2)"
    by (simp add: run_benchmark_after_sweep mk ls run)
  have sb: "spawned (fst (run_benchmark cfg e src inp out w)) = spawned t"
    by (simp add: rb spawned_append spawned_startup)
  have sf: "solver_spawn cfg e src inp out = ?sp"
    by (rule ext) (simp add: solver_spawn_def)
  from run_files_spawned[OF run] obtain k0 where
    k0: "spawned t = map ?sp (take k0 ?txt)"
    and full: "r = Inr () \<longrightarrow> spawned t = map ?sp ?txt"
    unfolding sf by blast
  define k where "k = (if r = Inr () then length ?txt else k0)"
  have eq: "spawned t = map ?sp (take k ?txt)"
    using k0 full by (simp add: k_def)
  have first: "?txt \<noteq> [] \<longrightarrow> 0 < k"
  proof
    assume "?txt \<noteq> []"
    then have "spawned t \<noteq> []"
      using run_files_spawns_first[of names cfg e src inp out w1] run by simp
    with eq show "0 < k" by (cases k) simp_all
  qed
  have all: "fst (snd (run_benchmark cfg e src inp out w)) = Inr () \<longrightarrow> length ?txt \<le> k"
    by (simp add: rb k_def)
  have "\<exists>k. spawned (fst (run_benchmark cfg e src inp out w)) = map ?sp (take k ?txt)
          \<and> (?txt \<noteq> [] \<longrightarrow> 0 < k)
          \<and> (fst (snd (run_benchmark cfg e src inp out w)) = Inr () \<longrightarrow> length ?txt \<le> k)"
    using eq first all unfolding sb by blast
  then show ?thesis
    unfolding shape pre library_flag by simp
qed

text \<open>
  A run of the shipped setting on macOS over three entries spawns these two commands; the
  command with no library and the timeout on Linux, and with CPLEX alone and the timeout.
\<close>

theorem solver_command_shape_witness:
  "spawned (fst (run_benchmark shipped_config
        (sample_host [''a.txt'', ''notes.md'', ''c.txt''] (fails_on [] 0))
        ''/work/solver'' ''/data/in'' ''/data/out/run1'' sample_world))
     = [([''java'',
          ''-Djava.library.path=/Users/ana/Documents/or-tools/build/lib/:/Users/ana/CPLEX_Studio2211/opl/bin/arm64_osx/'',
          ''--enable-native-access=ALL-UNNAMED'', ''-Xmx16g'',
          ''-jar'', ''/work/solver/target/ChallengeSBPO2025-1.0.jar'',
          ''/data/in/a.txt'', ''/data/out/run1/a.txt''],
         ''/work/solver'', StderrPipe),
        ([''java'',
          ''-Djava.library.path=/Users/ana/Documents/or-tools/build/lib/:/Users/ana/CPLEX_Studio2211/opl/bin/arm64_osx/'',
          ''--enable-native-access=ALL-UNNAMED'', ''-Xmx16g'',
          ''-jar'', ''/work/solver/target/ChallengeSBPO2025-1.0.jar'',
          ''/data/in/c.txt'', ''/data/out/run1/c.txt''],
         ''/work/solver'', StderrPipe)]
   \<and> cmd_for \<lparr>USE_CPLEX = False, USE_OR_TOOLS = False, USE_TIMEOUT = True\<rparr>
        ((sample_host [''a.txt'', ''notes.md'', ''c.txt''] (fails_on [] 0))\<lparr>platform_system := ''Linux''\<rparr>)
        ''/work/solver'' ''/data/in'' ''/data/out/run1'' ''a.txt''
     = [''timeout'', ''605s'', ''java'',
        ''--enable-native-access=ALL-UNNAMED'', ''-Xmx16g'',
        ''-jar'', ''/work/solver/target/ChallengeSBPO2025-1.0.jar'',
        ''/data/in/a.txt'', ''/data/out/run1/a.txt'']
   \<and> cmd_for \<lparr>USE_CPLEX = True, USE_OR_TOOLS = False, USE_TIMEOUT = True\<rparr>
        (sample_host [''a.txt'', ''notes.md'', ''c.txt''] (fails_on [] 0))
        ''/work/solver'' ''/data/in'' ''/data/out/run1'' ''a.txt''
     = [''gtimeout'', ''605s'', ''java'',
        ''-Djava.library.path=/Users/ana/CPLEX_Studio2211/opl/bin/arm64_osx/'',
        ''--enable-native-access=ALL-UNNAMED'', ''-Xmx16g'',
        ''-jar'', ''/work/solver/target/ChallengeSBPO2025-1.0.jar'',
        ''/data/in/a.txt'', ''/data/out/run1/a.txt'']"
proof -
  let ?H = "sample_host [''a.txt'', ''notes.md'', ''c.txt''] (fails_on [] 0)"
  let ?L = "(sample_host [''a.txt'', ''notes.md'', ''c.txt''] (fails_on [] 0))\<lparr>platform_system := ''Linux''\<rparr>"
  let ?run = "run_benchmark shipped_config ?H ''/work/solver'' ''/data/in'' ''/data/out/run1'' sample_world"
  have ls: "os_listdir ?H ''/data/in'' sample_world_out = Inr [''a.txt'', ''notes.md'', ''c.txt'']"
    by (simp add: sample_host_def)
  have mkL: "os_makedirs ?L ''/data/out/run1'' sample_world = Inr sample_world_out"
    by code_simp
  have lsL: "os_listdir ?L ''/data/in'' sample_world_out = Inr [''a.txt'', ''notes.md'', ''c.txt'']"
    by (simp add: sample_host_def)
  have paths: "os_path_join ''/work/solver'' [''target'', ''ChallengeSBPO2025-1.0.jar'']
         = ''/work/solver/target/ChallengeSBPO2025-1.0.jar''"
      "os_path_join ''/data/in'' [''a.txt''] = ''/data/in/a.txt''"
      "os_path_join ''/data/in'' [''c.txt''] = ''/data/in/c.txt''"
      "output_file ''/data/out/run1'' ''a.txt'' = ''/data/out/run1/a.txt''"
      "output_file ''/data/out/run1'' ''c.txt'' = ''/data/out/run1/c.txt''"
    by code_simp+
  have libs: "OR_TOOLS_PATH ?H = ''/Users/ana/Documents/or-tools/build/lib/''"
      "CPLEX_PATH ?H = ''/Users/ana/CPLEX_Studio2211/opl/bin/arm64_osx/''"
    by (simp_all add: OR_TOOLS_PATH_def CPLEX_PATH_def expandvars_HOME_def sample_host_def)
  have sys: "platform_system ?H = ''Darwin''" "platform_system ?L = ''Linux''"
    by (simp_all add: sample_host_def)
  note shape = solver_command_shape [OF sample_makedirs ls,
      where cfg = shipped_config and src = "''/work/solver''"]
  have ca: "cmd_for shipped_config ?H ''/work/solver'' ''/data/in'' ''/data/out/run1'' ''a.txt''
      = [''java'',
          ''-Djava.library.path=/Users/ana/Documents/or-tools/build/lib/:/Users/ana/CPLEX_Studio2211/opl/bin/arm64_osx/'',
          ''--enable-native-access=ALL-UNNAMED'', ''-Xmx16g'',
          ''-jar'', ''/work/solver/target/ChallengeSBPO2025-1.0.jar'',
          ''/data/in/a.txt'', ''/data/out/run1/a.txt'']"
    using shape [where f = "''a.txt''", THEN conjunct1]
    unfolding paths libs sys by (simp add: shipped_config_def)
  have cc: "cmd_for shipped_config ?H ''/work/solver'' ''/data/in'' ''/data/out/run1'' ''c.txt''
      = [''java'',
          ''-Djava.library.path=/Users/ana/Documents/or-tools/build/lib/:/Users/ana/CPLEX_Studio2211/opl/bin/arm64_osx/'',
          ''--enable-native-access=ALL-UNNAMED'', ''-Xmx16g'',
          ''-jar'', ''/work/solver/target/ChallengeSBPO2025-1.0.jar'',
          ''/data/in/c.txt'', ''/data/out/run1/c.txt'']"
    using shape [where f = "''c.txt''", THEN conjunct1]
    unfolding paths libs sys by (simp add: shipped_config_def)
  have flt: "filter (\<lambda>n. endswith n ''.txt'') [''a.txt'', ''notes.md'', ''c.txt''] = [''a.txt'', ''c.txt'']"
    by code_simp
  have ok: "fst (snd ?run) = Inr ()"
    by code_simp
  from shape [where f = "''a.txt''", THEN conjunct2] obtain k where
    sp: "spawned (fst ?run)
          = map (\<lambda>n. (cmd_for shipped_config ?H ''/work/solver'' ''/data/in'' ''/data/out/run1'' n,
                        ''/work/solver'', StderrPipe))
              (take k [''a.txt'', ''c.txt''])"
    and all: "fst (snd ?run) = Inr () \<longrightarrow> length [''a.txt'', ''c.txt''] \<le> k"
    unfolding flt by blast
  from all ok have "take k [''a.txt'', ''c.txt''] = [''a.txt'', ''c.txt'']" by simp
  then have run: "spawned (fst ?run)
      = [(cmd_for shipped_config ?H ''/work/solver'' ''/data/in'' ''/data/out/run1'' ''a.txt'',
          ''/work/solver'', StderrPipe),
         (cmd_for shipped_config ?H ''/work/solver'' ''/data/in'' ''/data/out/run1'' ''c.txt'',
          ''/work/solver'', StderrPipe)]"
    using sp by simp
  have c2: "cmd_for \<lparr>USE_CPLEX = False, USE_OR_TOOLS = False, USE_TIMEOUT = True\<rparr> ?L
        ''/work/solver'' ''/data/in'' ''/data/out/run1'' ''a.txt''
     = [''timeout'', ''605s'', ''java'',
        ''--enable-native-access=ALL-UNNAMED'', ''-Xmx16g'',
        ''-jar'', ''/work/solver/target/ChallengeSBPO2025-1.0.jar'',
        ''/data/in/a.txt'', ''/data/out/run1/a.txt'']"
    using solver_command_shape [OF mkL lsL,
        where cfg = "\<lparr>USE_CPLEX = False, USE_OR_TOOLS = False, USE_TIMEOUT = True\<rparr>"
          and src = "''/work/solver''" and f = "''a.txt''", THEN conjunct1]
    unfolding paths sys by simp
  have c3: "cmd_for \<lparr>USE_CPLEX = True, USE_OR_TOOLS = False, USE_TIMEOUT = True\<rparr> ?H
        ''/work/solver'' ''/data/in'' ''/data/out/run1'' ''a.txt''
     = [''gtimeout'', ''605s'', ''java'',
        ''-Djava.library.path=/Users/ana/CPLEX_Studio2211/opl/bin/arm64_osx/'',
        ''--enable-native-access=ALL-UNNAMED'', ''-Xmx16g'',
        ''-jar'', ''/work/solver/target/ChallengeSBPO2025-1.0.jar'',
        ''/data/in/a.txt'', ''/data/out/run1/a.txt'']"
    using solver_command_shape [OF sample_makedirs ls,
        where cfg = "\<lparr>USE_CPLEX = True, USE_OR_TOOLS = False, USE_TIMEOUT = True\<rparr>"
          and src = "''/work/solver''" and f = "''a.txt''", THEN conjunct1]
    unfolding paths libs sys by simp
  show ?thesis
    unfolding run ca cc c2 c3 by simp
qed

section \<open>The output directory\<close>










end
